theory Spec2Isabelle
  imports Complex_Main
begin

section \<open>Data model: cells, rows and frames\<close>

text \<open>
  The program (BBand.py) works on one pandas DataFrame. A cell of the frame is a number,
  the missing value NaN, or a non-numeric object (for instance a string that the provider
  delivered). A number is a real; the rolling mean and deviation of the library are taken as
  the exact statistics, and the arithmetic that the program itself writes (the two band
  lines) rounds every result to a 64-bit float. Overflow, the infinities and subnormal
  numbers of 64-bit floats are not part of this model.

  A frame has its column labels in order and its rows in order; a row carries its index
  label (the date) and its cells by column label. Column labels are the keys of a map, so a
  frame of this model has no duplicate column labels. pandas keeps every row's cells in step
  with the column labels; a label that a row does not bind reads as NaN here.
\<close>

datatype cell = Num real | NaN | Obj string

record 'd frame =
  columns :: "string list"
  rows :: "('d \<times> (string \<rightharpoonup> cell)) list"

text \<open>\<open>data.empty\<close>: true when either axis has length 0.\<close>

definition empty_frame :: "'d frame \<Rightarrow> bool" where
  "empty_frame d = (rows d = [] \<or> columns d = [])"

text \<open>\<open>data[c]\<close>, the column as a sequence of cells in row order.\<close>

definition cell_at :: "(string \<rightharpoonup> cell) \<Rightarrow> string \<Rightarrow> cell" where
  "cell_at r c = (case r c of Some v \<Rightarrow> v | None \<Rightarrow> NaN)"

definition get_column :: "string \<Rightarrow> 'd frame \<Rightarrow> cell list" where
  "get_column c d = map (\<lambda>(i, r). cell_at r c) (rows d)"

text \<open>
  \<open>data[c] = values\<close>: an existing column is overwritten where it stands, a new one is
  appended as the last column. The values are aligned with the rows by position (they are
  always computed from a column of the same frame).
\<close>

definition set_column :: "string \<Rightarrow> cell list \<Rightarrow> 'd frame \<Rightarrow> 'd frame" where
  "set_column c vs d =
     \<lparr>columns = (if c \<in> set (columns d) then columns d else columns d @ [c]),
      rows = map (\<lambda>((i, r), v). (i, r(c \<mapsto> v))) (zip (rows d) vs)\<rparr>"

text \<open>\<open>data.tail(n)\<close>: the last \<open>n\<close> rows.\<close>

definition tail :: "nat \<Rightarrow> 'd frame \<Rightarrow> 'd frame" where
  "tail n d = d\<lparr>rows := drop (length (rows d) - n) (rows d)\<rparr>"

section \<open>Library operations used by the program\<close>

text \<open>
  \<open>pd.to_numeric(_, errors='coerce')\<close> on one cell: a number stays, NaN stays, any other
  object is parsed and becomes NaN when it cannot be parsed. The parser of the library is
  a parameter \<open>parse\<close>.
\<close>

fun to_numeric :: "(string \<Rightarrow> real option) \<Rightarrow> cell \<Rightarrow> cell" where
  "to_numeric parse (Num x) = Num x"
| "to_numeric parse NaN = NaN"
| "to_numeric parse (Obj t) = (case parse t of Some x \<Rightarrow> Num x | None \<Rightarrow> NaN)"

text \<open>\<open>isna\<close>: only NaN is missing; a row that does not bind the label counts as missing.\<close>

definition isna :: "(string \<rightharpoonup> cell) \<Rightarrow> string \<Rightarrow> bool" where
  "isna r c = (cell_at r c = NaN)"

text \<open>\<open>data.dropna(subset=cs, inplace=True)\<close>: a row goes when any cell under \<open>cs\<close> is missing.\<close>

definition dropna :: "string list \<Rightarrow> 'd frame \<Rightarrow> 'd frame" where
  "dropna cs d = d\<lparr>rows := filter (\<lambda>(i, r). \<forall>c \<in> set cs. \<not> isna r c) (rows d)\<rparr>"

text \<open>
  The trailing window of \<open>rolling(window=w)\<close> at position \<open>i\<close>: positions
  \<open>i - w + 1\<close> (not below 0) up to \<open>i\<close>. Its observations are the numbers in it.
\<close>

definition window_at :: "nat \<Rightarrow> 'a list \<Rightarrow> nat \<Rightarrow> 'a list" where
  "window_at w xs i = drop (Suc i - w) (take (Suc i) xs)"

fun observations :: "cell list \<Rightarrow> real list" where
  "observations [] = []"
| "observations (Num x # cs) = x # observations cs"
| "observations (c # cs) = observations cs"

definition mean :: "real list \<Rightarrow> real" where
  "mean xs = sum_list xs / real (length xs)"

text \<open>Sum of squared deviations from the mean over \<open>n - ddof\<close>, with \<open>ddof = 1\<close>.\<close>

definition sample_var :: "real list \<Rightarrow> real" where
  "sample_var xs = (\<Sum>x\<leftarrow>xs. (x - mean xs)\<^sup>2) / (real (length xs) - 1)"

text \<open>
  \<open>rolling(window=w).mean()\<close>: \<open>min_periods\<close> defaults to \<open>w\<close>; the result at a position
  is the mean of the observations when there are at least \<open>min_periods\<close> of them (and at
  least one), and NaN otherwise.
\<close>

definition rolling_mean :: "nat \<Rightarrow> cell list \<Rightarrow> cell list" where
  "rolling_mean w cs =
     map (\<lambda>i. let obs = observations (window_at w cs i)
              in if w \<le> length obs \<and> 0 < length obs then Num (mean obs) else NaN)
         [0..<length cs]"

text \<open>
  \<open>rolling(window=w).std()\<close>: \<open>ddof\<close> defaults to 1; the result is the square root of the
  sample variance when the number of observations is at least \<open>min_periods\<close> and exceeds
  \<open>ddof\<close>, and NaN otherwise.
\<close>

definition rolling_std :: "nat \<Rightarrow> cell list \<Rightarrow> cell list" where
  "rolling_std w cs =
     map (\<lambda>i. let obs = observations (window_at w cs i)
              in if w \<le> length obs \<and> 1 < length obs then Num (sqrt (sample_var obs)) else NaN)
         [0..<length cs]"

text \<open>
  Rounding to a 64-bit float (IEEE 754 binary64, round to nearest, ties to even): the
  result has a significand of 53 bits, so a nonzero \<open>x\<close> with \<open>2^k \<le> |x| < 2^(k+1)\<close> is
  rounded to a multiple of \<open>2^(k-52)\<close>. The exponent is not bounded here.
\<close>

definition round_even :: "real \<Rightarrow> int" where
  "round_even x =
     (let n = \<lfloor>x\<rfloor>; d = x - of_int n
      in if d < 1 / 2 then n else if 1 / 2 < d then n + 1 else if even n then n else n + 1)"

definition binary64 :: "real \<Rightarrow> real" where
  "binary64 x =
     (if x = 0 then 0
      else let e = \<lfloor>log 2 \<bar>x\<bar>\<rfloor> - 52
           in of_int (round_even (x / 2 powr of_int e)) * 2 powr of_int e)"

text \<open>
  Series arithmetic in 64-bit floats: \<open>num_std * data['STD']\<close>, \<open>+\<close> and \<open>-\<close>. Each
  operation gives the rounded exact result; a missing or non-numeric operand gives NaN.
\<close>

fun scale :: "real \<Rightarrow> cell \<Rightarrow> cell" where
  "scale m (Num x) = Num (binary64 (m * x))"
| "scale m c = NaN"

fun cell_add :: "cell \<Rightarrow> cell \<Rightarrow> cell" where
  "cell_add (Num x) (Num y) = Num (binary64 (x + y))"
| "cell_add a b = NaN"

fun cell_sub :: "cell \<Rightarrow> cell \<Rightarrow> cell" where
  "cell_sub (Num x) (Num y) = Num (binary64 (x - y))"
| "cell_sub a b = NaN"

section \<open>The indicator computation of \<open>plot_bollinger_bands\<close>\<close>

definition cols :: "string list" where
  "cols = [''Open'', ''High'', ''Low'', ''Close'', ''Volume'']"

text \<open>\<open>data[cols] = data[cols].apply(pd.to_numeric, errors='coerce')\<close>\<close>

definition coerce_row :: "(string \<Rightarrow> real option) \<Rightarrow> (string \<rightharpoonup> cell) \<Rightarrow> (string \<rightharpoonup> cell)" where
  "coerce_row parse r = (\<lambda>c. if c \<in> set cols then map_option (to_numeric parse) (r c) else r c)"

definition coerce :: "(string \<Rightarrow> real option) \<Rightarrow> 'd frame \<Rightarrow> 'd frame" where
  "coerce parse d = d\<lparr>rows := map (\<lambda>(i, r). (i, coerce_row parse r)) (rows d)\<rparr>"

text \<open>
  The statements of the function between the column check and the chart, in their order:
  coercion, removal of rows, the columns MA and STD, then Upper and Lower.
\<close>

definition compute_indicators ::
    "(string \<Rightarrow> real option) \<Rightarrow> nat \<Rightarrow> real \<Rightarrow> 'd frame \<Rightarrow> 'd frame" where
  "compute_indicators parse w num_std d =
     (let d1 = coerce parse d;
          d2 = dropna cols d1;
          d3 = set_column ''MA'' (rolling_mean w (get_column ''Close'' d2)) d2;
          d4 = set_column ''STD'' (rolling_std w (get_column ''Close'' d3)) d3;
          d5 = set_column ''Upper''
                 (map2 cell_add (get_column ''MA'' d4) (map (scale num_std) (get_column ''STD'' d4))) d4;
          d6 = set_column ''Lower''
                 (map2 cell_sub (get_column ''MA'' d5) (map (scale num_std) (get_column ''STD'' d5))) d5
      in d6)"

section \<open>The session: the frame object and the page\<close>

text \<open>
  The frame is a mutable object shared by the caller and \<open>plot_bollinger_bands\<close>; every
  assignment and \<open>inplace=True\<close> of the function changes that object. The state of a run is
  this object together with what has been put on the page so far. The messages of the
  program are fixed texts; \<open>SchemaMismatch\<close> carries \<open>list(data.columns)\<close>, which the text of
  that message ends with.
\<close>

datatype message =
    SchemaMismatch "string list"
  | NoHistory
  | CannotPlot

datatype ('d, 'fig) ui_event =
    StError message
  | StWriteCount nat
  | StWriteTail "'d frame"
  | StPyplot 'fig
  | StSubheader 'd
  | StWriteValue string cell

record ('d, 'fig) session =
  data :: "'d frame"
  ui :: "('d, 'fig) ui_event list"

text \<open>
  Exceptions. The chart library raises on frames it cannot draw (for instance ValueError
  when an overlay column is NaN in every row); \<open>data.iloc[-1]\<close> raises IndexError on a
  frame without rows.
\<close>

datatype py_error = IndexError | ValueError | TypeError

text \<open>
  \<open>plot_bollinger_bands(data, window, num_std)\<close>. The chart library is a parameter
  \<open>mpf_plot\<close> that draws the frame it is given (with the columns MA, Upper and Lower as
  overlays) and returns the figure or raises. The function returns \<open>None\<close> after the
  error message, or returns the figure, or ends with the exception of the chart library;
  by then the frame has been changed.
\<close>

definition plot_bollinger_bands ::
    "(string \<Rightarrow> real option) \<Rightarrow> ('d frame \<Rightarrow> py_error + 'fig) \<Rightarrow> nat \<Rightarrow> real \<Rightarrow>
     ('d, 'fig) session \<Rightarrow> (py_error + 'fig option) \<times> ('d, 'fig) session" where
  "plot_bollinger_bands parse mpf_plot w num_std s =
     (if \<not> set cols \<subseteq> set (columns (data s))
      then (Inr None, s\<lparr>ui := ui s @ [StError (SchemaMismatch (columns (data s)))]\<rparr>)
      else let s' = s\<lparr>data := compute_indicators parse w num_std (data s)\<rparr>
           in case mpf_plot (data s') of
                Inl e \<Rightarrow> (Inl e, s')
              | Inr fig \<Rightarrow> (Inr (Some fig), s'))"

text \<open>
  The block under the query button, from the downloaded frame on. An exception ends the
  run with what is on the page by then.
\<close>

definition latest_summary :: "'d frame \<Rightarrow> py_error + ('d, 'fig) ui_event list" where
  "latest_summary d =
     (case rows d of
        [] \<Rightarrow> Inl IndexError
      | _ # _ \<Rightarrow>
          (let (name, latest_data) = last (rows d)
           in Inr [StSubheader name,
                   StWriteValue ''Close'' (cell_at latest_data ''Close''),
                   StWriteValue ''Upper'' (cell_at latest_data ''Upper''),
                   StWriteValue ''MA'' (cell_at latest_data ''MA''),
                   StWriteValue ''Lower'' (cell_at latest_data ''Lower'')]))"

definition query ::
    "(string \<Rightarrow> real option) \<Rightarrow> ('d frame \<Rightarrow> py_error + 'fig) \<Rightarrow> nat \<Rightarrow> real \<Rightarrow> 'd frame \<Rightarrow>
     py_error option \<times> ('d, 'fig) ui_event list" where
  "query parse mpf_plot w num_std downloaded =
     (if empty_frame downloaded then (None, [StError NoHistory])
      else
        let s0 = \<lparr>data = downloaded,
                  ui = [StWriteCount (length (rows downloaded)), StWriteTail (tail 5 downloaded)]\<rparr>;
            (fig, s1) = plot_bollinger_bands parse mpf_plot w num_std s0
        in case fig of
             Inl e \<Rightarrow> (Some e, ui s1)
           | Inr None \<Rightarrow> (None, ui s1 @ [StError CannotPlot])
           | Inr (Some f) \<Rightarrow>
               (case latest_summary (data s1) of
                  Inl e \<Rightarrow> (Some e, ui s1 @ [StPyplot f])
                | Inr summary \<Rightarrow> (None, ui s1 @ [StPyplot f] @ summary)))"

section \<open>Notions used to state the properties\<close>

text \<open>The frame after the coercion and the removal of rows, before any column is added.\<close>

definition prepared :: "(string \<Rightarrow> real option) \<Rightarrow> 'd frame \<Rightarrow> 'd frame" where
  "prepared parse d = dropna cols (coerce parse d)"

text \<open>The coercion of the cell under \<open>c\<close> fails: it does not yield a number, \<open>errors='coerce'\<close> leaves NaN.\<close>

definition coercion_fails :: "(string \<Rightarrow> real option) \<Rightarrow> (string \<rightharpoonup> cell) \<Rightarrow> string \<Rightarrow> bool" where
  "coercion_fails parse r c = (to_numeric parse (cell_at r c) = NaN)"

text \<open>Every row binds every label of \<open>cs\<close> to a number.\<close>

definition numeric_on :: "string list \<Rightarrow> 'd frame \<Rightarrow> bool" where
  "numeric_on cs d = (\<forall>(i, r) \<in> set (rows d). \<forall>c \<in> set cs. \<exists>x. r c = Some (Num x))"

text \<open>The label is a column of the frame and every row has a cell under it.\<close>

definition bound :: "string \<Rightarrow> 'd frame \<Rightarrow> bool" where
  "bound c d = (c \<in> set (columns d) \<and> (\<forall>(i, r) \<in> set (rows d). r c \<noteq> None))"

subsection \<open>Example inputs\<close>

text \<open>A daily bar whose four prices are all \<open>x\<close>, and a frame of three of them.\<close>

definition bar :: "real \<Rightarrow> (string \<rightharpoonup> cell)" where
  "bar x = [''Open'' \<mapsto> Num x, ''High'' \<mapsto> Num x, ''Low'' \<mapsto> Num x,
            ''Close'' \<mapsto> Num x, ''Volume'' \<mapsto> Num 100]"

definition three_bars :: "nat frame" where
  "three_bars = \<lparr>columns = cols, rows = [(0, bar 10), (1, bar 20), (2, bar 60)]\<rparr>"

text \<open>Ten bars with the distinct closes 1 to 10.\<close>

definition ten_bars :: "nat frame" where
  "ten_bars = \<lparr>columns = cols,
      rows = [(0, bar 1), (1, bar 2), (2, bar 3), (3, bar 4), (4, bar 5),
              (5, bar 6), (6, bar 7), (7, bar 8), (8, bar 9), (9, bar 10)]\<rparr>"

text \<open>
  A download without the Volume column; three bars with a further column, the second bar
  with a Volume that is not a number; and a frame with the columns but no rows.
\<close>

definition no_volume :: "nat frame" where
  "no_volume = \<lparr>columns = [''Open'', ''High'', ''Low'', ''Close''],
                 rows = [(0, [''Open'' \<mapsto> Num 10, ''High'' \<mapsto> Num 10, ''Low'' \<mapsto> Num 10, ''Close'' \<mapsto> Num 10])]\<rparr>"

definition gap_bars :: "nat frame" where
  "gap_bars = \<lparr>columns = cols @ [''Note''],
                rows = [(0, (bar 10)(''Note'' \<mapsto> Obj ''a'')),
                        (1, (bar 20)(''Volume'' \<mapsto> Obj ''n/a'', ''Note'' \<mapsto> Obj ''b'')),
                        (2, (bar 60)(''Note'' \<mapsto> Obj ''c''))]\<rparr>"

definition no_bars :: "nat frame" where
  "no_bars = \<lparr>columns = cols, rows = []\<rparr>"

section \<open>Rounding to a 64-bit float\<close>

lemma round_even_error: "\<bar>of_int (round_even x) - x\<bar> \<le> 1 / 2"
  unfolding round_even_def Let_def by (auto simp: abs_le_iff)

lemma round_even_eqI:
  assumes "of_int n - 1 / 2 < x" and "x < of_int n + 1 / 2"
  shows "round_even x = n"
proof -
  have "\<lfloor>x\<rfloor> = n \<or> \<lfloor>x\<rfloor> = n - 1"
    using assms by (auto simp: floor_eq_iff)
  then show ?thesis
    using assms unfolding round_even_def Let_def by auto
qed

lemma binary64_error: "\<bar>binary64 x - x\<bar> \<le> \<bar>x\<bar> / 2 ^ 53"
proof (cases "x = 0")
  case True
  then show ?thesis by (simp add: binary64_def)
next
  case False
  define e where "e = \<lfloor>log 2 \<bar>x\<bar>\<rfloor> - 52"
  define s :: real where "s = 2 powr of_int e"
  have s: "0 < s" by (simp add: s_def)
  have b: "binary64 x = of_int (round_even (x / s)) * s"
    using False by (simp add: binary64_def e_def s_def Let_def)
  have "binary64 x - x = (of_int (round_even (x / s)) - x / s) * s"
    using s by (simp add: b field_simps)
  then have "\<bar>binary64 x - x\<bar> = \<bar>of_int (round_even (x / s)) - x / s\<bar> * s"
    using s by (simp add: abs_mult)
  also have "\<dots> \<le> 1 / 2 * s"
    using s round_even_error [of "x / s"] by (intro mult_right_mono) auto
  finally have 1: "\<bar>binary64 x - x\<bar> \<le> s / 2" by simp
  have "of_int e + 52 \<le> log 2 \<bar>x\<bar>"
    unfolding e_def by simp
  then have "2 powr (of_int e + 52) \<le> \<bar>x\<bar>"
    using False by (simp add: le_log_iff)
  then have "s * 2 ^ 52 \<le> \<bar>x\<bar>"
    by (simp add: s_def powr_add)
  then have "s / 2 \<le> \<bar>x\<bar> / 2 ^ 53"
    by (simp add: field_simps)
  with 1 show ?thesis by linarith
qed

lemma binary64_normal:
  assumes "2 ^ k \<le> \<bar>x\<bar>" and "\<bar>x\<bar> < 2 ^ Suc k" and "k \<le> 52"
      and "of_int n - 1 / 2 < x * 2 ^ (52 - k)" and "x * 2 ^ (52 - k) < of_int n + 1 / 2"
  shows "binary64 x = of_int n / 2 ^ (52 - k)"
proof -
  have "0 < \<bar>x\<bar>"
    using assms(1) zero_less_power [of "2::real" k] by linarith
  then have x: "x \<noteq> 0" "0 < \<bar>x\<bar>"
    by auto
  have "\<lfloor>log 2 \<bar>x\<bar>\<rfloor> = int k"
    using x assms(1,2) by (simp add: floor_log_eq_powr_iff powr_realpow powr_add)
  then have e: "\<lfloor>log 2 \<bar>x\<bar>\<rfloor> - 52 = - int (52 - k)"
    using assms(3) by simp
  have p: "(2::real) powr of_int (- int (52 - k)) = 1 / 2 ^ (52 - k)"
    by (simp add: powr_minus powr_realpow inverse_eq_divide)
  have r: "round_even (x * 2 ^ (52 - k)) = n"
    using assms(4,5) by (rule round_even_eqI)
  have "binary64 x =
          of_int (round_even (x / 2 powr of_int (- int (52 - k)))) * 2 powr of_int (- int (52 - k))"
    unfolding binary64_def Let_def e using x(1) by (simp only: if_False)
  also have "\<dots> = of_int (round_even (x * 2 ^ (52 - k))) * (1 / 2 ^ (52 - k))"
    unfolding p by simp
  finally show ?thesis
    by (simp add: r)
qed

lemma band_difference_error:
  fixes a d m :: real
  defines "p \<equiv> binary64 (m * d)"
  shows "\<bar>(binary64 (a + p) - binary64 (a - p)) - 2 * m * d\<bar> \<le> (\<bar>a\<bar> + 3 * \<bar>m * d\<bar>) / 2 ^ 52"
proof -
  define M where "M = \<bar>m * d\<bar>"
  define e1 where "e1 = p - m * d"
  define e2 where "e2 = binary64 (a + p) - (a + p)"
  define e3 where "e3 = binary64 (a - p) - (a - p)"
  have M: "0 \<le> M" by (simp add: M_def)
  have 1: "\<bar>e1\<bar> \<le> M / 2 ^ 53"
    unfolding e1_def p_def M_def by (rule binary64_error)
  have p: "\<bar>p\<bar> \<le> M + M / 2 ^ 53"
    using 1 unfolding e1_def M_def by linarith
  have 2: "\<bar>e2\<bar> \<le> \<bar>a + p\<bar> / 2 ^ 53"
    unfolding e2_def by (rule binary64_error)
  have 3: "\<bar>e3\<bar> \<le> \<bar>a - p\<bar> / 2 ^ 53"
    unfolding e3_def by (rule binary64_error)
  have ap: "\<bar>a + p\<bar> \<le> \<bar>a\<bar> + \<bar>p\<bar>" "\<bar>a - p\<bar> \<le> \<bar>a\<bar> + \<bar>p\<bar>"
    by linarith+
  have "(binary64 (a + p) - binary64 (a - p)) - 2 * m * d = 2 * e1 + e2 - e3"
    by (simp add: e1_def e2_def e3_def)
  then have "\<bar>(binary64 (a + p) - binary64 (a - p)) - 2 * m * d\<bar> \<le> 2 * \<bar>e1\<bar> + \<bar>e2\<bar> + \<bar>e3\<bar>"
    by linarith
  also have "\<dots> \<le> 2 * (M / 2 ^ 53) + (\<bar>a\<bar> + \<bar>p\<bar>) / 2 ^ 53 + (\<bar>a\<bar> + \<bar>p\<bar>) / 2 ^ 53"
    using 1 2 3 ap by (simp add: field_simps)
  also have "\<dots> \<le> (\<bar>a\<bar> + 3 * M) / 2 ^ 52"
    using p M by (simp add: field_simps)
  finally show ?thesis
    by (simp add: M_def)
qed

section \<open>Rolling windows over a numeric series\<close>

lemma observations_map_Num: "observations (map Num xs) = xs"
  by (induction xs) simp_all

lemma map_Num_observations:
  "\<forall>c \<in> set cs. \<exists>x. c = Num x \<Longrightarrow> map Num (observations cs) = cs"
  by (induction cs) auto

lemma window_at_map: "window_at w (map f xs) i = map f (window_at w xs i)"
  by (simp add: window_at_def take_map drop_map)

lemma length_window_at: "i < length xs \<Longrightarrow> length (window_at w xs i) = min w (Suc i)"
  by (auto simp: window_at_def)

lemma sum_list_window_at:
  fixes xs :: "real list"
  assumes "i < length xs"
  shows "sum_list (window_at w xs i) = (\<Sum>j = Suc i - w..i. xs ! j)"
proof -
  let ?a = "Suc i - w"
  have len: "length (window_at w xs i) = Suc i - ?a"
    using assms by (auto simp: window_at_def)
  have nth: "\<And>k. k < Suc i - ?a \<Longrightarrow> window_at w xs i ! k = xs ! (?a + k)"
    using assms by (auto simp: window_at_def)
  have "sum_list (window_at w xs i) = (\<Sum>k = 0..<Suc i - ?a. window_at w xs i ! k)"
    using len by (metis sum_list_sum_nth)
  also have "\<dots> = (\<Sum>k = 0..<Suc i - ?a. xs ! (?a + k))"
    using nth by simp
  also have "\<dots> = (\<Sum>j = ?a..<Suc i. xs ! j)"
    using sum.shift_bounds_nat_ivl [of "\<lambda>j. xs ! j" 0 ?a "Suc i - ?a"]
    by (simp add: add.commute)
  also have "\<dots> = (\<Sum>j = ?a..i. xs ! j)"
    by (simp add: atLeastLessThanSuc_atLeastAtMost)
  finally show ?thesis .
qed

lemma length_rolling_mean [simp]: "length (rolling_mean w cs) = length cs"
  by (simp add: rolling_mean_def)

lemma length_rolling_std [simp]: "length (rolling_std w cs) = length cs"
  by (simp add: rolling_std_def)

lemma rolling_mean_nth:
  assumes "i < length xs"
  shows "rolling_mean w (map Num xs) ! i =
           (if 1 \<le> w \<and> w \<le> Suc i then Num (mean (window_at w xs i)) else NaN)"
proof -
  have "length (window_at w xs i) = min w (Suc i)"
    using assms by (rule length_window_at)
  then have "(w \<le> length (window_at w xs i) \<and> 0 < length (window_at w xs i)) =
             (1 \<le> w \<and> w \<le> Suc i)"
    by auto
  then show ?thesis
    using assms
    by (simp add: rolling_mean_def window_at_map observations_map_Num Let_def
          del: length_greater_0_conv)
qed

lemma rolling_std_nth:
  assumes "i < length xs"
  shows "rolling_std w (map Num xs) ! i =
           (if 2 \<le> w \<and> w \<le> Suc i then Num (sqrt (sample_var (window_at w xs i))) else NaN)"
  using assms
  by (auto simp: rolling_std_def window_at_map observations_map_Num length_window_at Let_def)




lemma rolling_mean_cases:
  "i < length cs \<Longrightarrow> rolling_mean w cs ! i = NaN \<or> (\<exists>x. rolling_mean w cs ! i = Num x)"
  by (simp add: rolling_mean_def Let_def del: length_greater_0_conv)

lemma rolling_std_cases:
  "i < length cs \<Longrightarrow> rolling_std w cs ! i = NaN \<or> (\<exists>x. rolling_std w cs ! i = Num x)"
  by (simp add: rolling_std_def Let_def)

lemma length_observations: "length (observations cs) \<le> length cs"
  by (induction cs rule: observations.induct) simp_all

lemma rolling_mean_short:
  assumes "length cs < w" and "i < length cs"
  shows "rolling_mean w cs ! i = NaN"
proof -
  have "length (observations (window_at w cs i)) \<le> length (window_at w cs i)"
    by (rule length_observations)
  also have "\<dots> < w"
    using assms by (simp add: length_window_at)
  finally show ?thesis
    using assms(2) by (simp add: rolling_mean_def Let_def del: length_greater_0_conv)
qed

lemma rolling_std_short:
  assumes "length cs < w" and "i < length cs"
  shows "rolling_std w cs ! i = NaN"
proof -
  have "length (observations (window_at w cs i)) \<le> length (window_at w cs i)"
    by (rule length_observations)
  also have "\<dots> < w"
    using assms by (simp add: length_window_at)
  finally show ?thesis
    using assms(2) by (simp add: rolling_std_def Let_def)
qed

section \<open>Reading and writing columns\<close>

lemma length_get_column [simp]: "length (get_column c d) = length (rows d)"
  by (simp add: get_column_def)

lemma get_column_set_column_same:
  "length vs = length (rows d) \<Longrightarrow> get_column c (set_column c vs d) = vs"
  by (auto simp: get_column_def set_column_def cell_at_def intro!: nth_equalityI
        split: prod.splits)

lemma get_column_set_column_other:
  "length vs = length (rows d) \<Longrightarrow> c' \<noteq> c \<Longrightarrow>
   get_column c' (set_column c vs d) = get_column c' d"
  by (auto simp: get_column_def set_column_def cell_at_def intro!: nth_equalityI
        split: prod.splits)

lemma length_rows_set_column:
  "length vs = length (rows d) \<Longrightarrow> length (rows (set_column c vs d)) = length (rows d)"
  by (simp add: set_column_def)

lemma index_set_column:
  "length vs = length (rows d) \<Longrightarrow> map fst (rows (set_column c vs d)) = map fst (rows d)"
  by (auto simp: set_column_def intro!: nth_equalityI split: prod.splits)

section \<open>Coercion and removal of rows\<close>

lemma to_numeric_cases: "to_numeric parse v = NaN \<or> (\<exists>x. to_numeric parse v = Num x)"
  by (cases v) (auto split: option.splits)

lemma cell_at_coerce_row:
  "cell_at (coerce_row parse r) c =
     (if c \<in> set cols then to_numeric parse (cell_at r c) else cell_at r c)"
  by (simp add: cell_at_def coerce_row_def split: option.splits)

lemma isna_coerce_row:
  "c \<in> set cols \<Longrightarrow> isna (coerce_row parse r) c = coercion_fails parse r c"
  by (simp add: isna_def coercion_fails_def cell_at_coerce_row)

lemma rows_prepared:
  "rows (prepared parse d) =
     map (\<lambda>(i, r). (i, coerce_row parse r))
       (filter (\<lambda>(i, r). \<forall>c \<in> set cols. \<not> coercion_fails parse r c) (rows d))"
proof -
  have "filter (\<lambda>(i, r). \<forall>c \<in> set cols. \<not> isna r c)
          (map (\<lambda>(i, r). (i, coerce_row parse r)) xs) =
        map (\<lambda>(i, r). (i, coerce_row parse r))
          (filter (\<lambda>(i, r). \<forall>c \<in> set cols. \<not> coercion_fails parse r c) xs)"
    for xs :: "('a \<times> (string \<rightharpoonup> cell)) list"
    by (induction xs) (auto simp: isna_coerce_row)
  then show ?thesis
    by (simp add: prepared_def dropna_def coerce_def)
qed

lemma prepared_numeric:
  assumes "(i, r) \<in> set (rows (prepared parse d))" and "c \<in> set cols"
  shows "\<exists>x. cell_at r c = Num x"
proof -
  from assms(1) obtain r0 where r: "r = coerce_row parse r0"
    and ok: "\<forall>c \<in> set cols. \<not> coercion_fails parse r0 c"
    by (auto simp: rows_prepared)
  from ok assms(2) have "to_numeric parse (cell_at r0 c) \<noteq> NaN"
    by (simp add: coercion_fails_def)
  then obtain x where "to_numeric parse (cell_at r0 c) = Num x"
    using to_numeric_cases by blast
  then show ?thesis
    using assms(2) by (simp add: r cell_at_coerce_row)
qed

lemma close_prepared:
  "map Num (observations (get_column ''Close'' (prepared parse d))) =
   get_column ''Close'' (prepared parse d)"
proof (rule map_Num_observations)
  have "''Close'' \<in> set cols" by (simp add: cols_def)
  then show "\<forall>c \<in> set (get_column ''Close'' (prepared parse d)). \<exists>x. c = Num x"
    using prepared_numeric [of _ _ parse d "''Close''"] by (auto simp: get_column_def)
qed

lemma length_rows_prepared: "length (rows (prepared parse d)) \<le> length (rows d)"
  by (simp add: rows_prepared)

section \<open>The columns that the computation leaves in the frame\<close>

lemma compute_indicators_columns:
  fixes d :: "'d frame" and parse :: "string \<Rightarrow> real option" and w :: nat and m :: real
  defines "close \<equiv> get_column ''Close'' (prepared parse d)"
  defines "out \<equiv> compute_indicators parse w m d"
  shows "get_column ''Close'' out = close"
    and "get_column ''MA'' out = rolling_mean w close"
    and "get_column ''STD'' out = rolling_std w close"
    and "get_column ''Upper'' out =
           map2 cell_add (rolling_mean w close) (map (scale m) (rolling_std w close))"
    and "get_column ''Lower'' out =
           map2 cell_sub (rolling_mean w close) (map (scale m) (rolling_std w close))"
    and "map fst (rows out) = map fst (rows (prepared parse d))"
  unfolding close_def out_def compute_indicators_def prepared_def Let_def
  by (simp_all add: get_column_set_column_same get_column_set_column_other
        length_rows_set_column index_set_column)

lemma length_rows_compute:
  "length (rows (compute_indicators parse w m d)) = length (rows (prepared parse d))"
  using compute_indicators_columns(6) [of parse w m d] by (metis length_map)

lemma plot_bollinger_bands_frame:
  "set cols \<subseteq> set (columns (data s)) \<Longrightarrow>
   snd (plot_bollinger_bands parse mpf_plot w m s) =
     s\<lparr>data := compute_indicators parse w m (data s)\<rparr>"
  by (simp add: plot_bollinger_bands_def Let_def split: sum.splits)

lemma plot_bollinger_bands_result:
  "set cols \<subseteq> set (columns (data s)) \<Longrightarrow>
   fst (plot_bollinger_bands parse mpf_plot w m s) =
     (case mpf_plot (compute_indicators parse w m (data s)) of
        Inl e \<Rightarrow> Inl e
      | Inr fig \<Rightarrow> Inr (Some fig))"
  by (simp add: plot_bollinger_bands_def Let_def split: sum.splits)

lemma plot_bollinger_bands_mismatch:
  "\<not> set cols \<subseteq> set (columns (data s)) \<Longrightarrow>
   plot_bollinger_bands parse mpf_plot w m s =
     (Inr None, s\<lparr>ui := ui s @ [StError (SchemaMismatch (columns (data s)))]\<rparr>)"
  by (simp add: plot_bollinger_bands_def)

section \<open>Running the computation on its own result\<close>

lemma numeric_on_prepared: "numeric_on cols (prepared parse d)"
  unfolding numeric_on_def
proof (clarify)
  fix i r c
  assume "(i, r) \<in> set (rows (prepared parse d))" and "c \<in> set cols"
  then have "\<exists>x. cell_at r c = Num x"
    by (rule prepared_numeric)
  then show "\<exists>x. r c = Some (Num x)"
    by (auto simp: cell_at_def split: option.splits)
qed

lemma numeric_on_set_column:
  "numeric_on cs d \<Longrightarrow> c \<notin> set cs \<Longrightarrow> numeric_on cs (set_column c vs d)"
  by (fastforce simp: numeric_on_def set_column_def dest: set_zip_leftD)

lemma bound_set_column_same: "bound c (set_column c vs d)"
  by (auto simp: bound_def set_column_def)

lemma bound_set_column_other: "bound c d \<Longrightarrow> bound c (set_column c' vs d)"
  by (fastforce simp: bound_def set_column_def dest: set_zip_leftD)

lemma zip_map_self: "zip xs (map f xs) = map (\<lambda>x. (x, f x)) xs"
  by (induction xs) simp_all

lemma set_column_stored:
  fixes d :: "'d frame"
  assumes "bound c d"
  shows "set_column c (get_column c d) d = d"
proof -
  have row: "r(c \<mapsto> cell_at r c) = r" if "(i, r) \<in> set (rows d)" for i r
  proof -
    from assms that obtain v where "r c = Some v"
      by (auto simp: bound_def)
    then show ?thesis
      by (simp add: cell_at_def map_upd_triv)
  qed
  have "map (\<lambda>((i, r), v). (i, r(c \<mapsto> v))) (zip (rows d) (map (\<lambda>(i, r). cell_at r c) (rows d))) =
        map (\<lambda>(i, r). (i, r(c \<mapsto> cell_at r c))) (rows d)"
    unfolding zip_map_self by (simp add: case_prod_unfold comp_def)
  also have "\<dots> = rows d"
    by (rule map_idI) (auto simp: row)
  finally show ?thesis
    using assms by (simp add: set_column_def get_column_def bound_def)
qed

lemma prepared_of_numeric:
  fixes d :: "'d frame"
  assumes "numeric_on cols d"
  shows "prepared parse d = d"
proof -
  have row: "coerce_row parse r = r \<and> (\<forall>c \<in> set cols. \<not> isna r c)"
    if "(i, r) \<in> set (rows d)" for i r
  proof -
    from assms that have n: "\<forall>c \<in> set cols. \<exists>x. r c = Some (Num x)"
      by (auto simp: numeric_on_def)
    have "coerce_row parse r c = r c" for c
      using n by (cases "c \<in> set cols") (auto simp: coerce_row_def)
    moreover have "\<forall>c \<in> set cols. \<not> isna r c"
      using n by (auto simp: isna_def cell_at_def)
    ultimately show ?thesis by auto
  qed
  have 1: "map (\<lambda>(i, r). (i, coerce_row parse r)) (rows d) = rows d"
    using row by (intro map_idI) auto
  have 2: "filter (\<lambda>(i, r). \<forall>c \<in> set cols. \<not> isna r c) (rows d) = rows d"
    using row by (intro filter_True) auto
  show ?thesis
    by (simp add: prepared_def coerce_def dropna_def 1 2)
qed

lemma indicator_labels:
  "''MA'' \<notin> set cols" "''STD'' \<notin> set cols" "''Upper'' \<notin> set cols" "''Lower'' \<notin> set cols"
  by (simp_all add: cols_def)

lemma compute_indicators_steps:
  "compute_indicators parse w m d =
     set_column ''Lower''
       (map2 cell_sub (rolling_mean w (get_column ''Close'' (prepared parse d)))
          (map (scale m) (rolling_std w (get_column ''Close'' (prepared parse d)))))
       (set_column ''Upper''
          (map2 cell_add (rolling_mean w (get_column ''Close'' (prepared parse d)))
             (map (scale m) (rolling_std w (get_column ''Close'' (prepared parse d)))))
          (set_column ''STD'' (rolling_std w (get_column ''Close'' (prepared parse d)))
             (set_column ''MA'' (rolling_mean w (get_column ''Close'' (prepared parse d)))
                (prepared parse d))))"
  unfolding compute_indicators_def prepared_def Let_def
  by (simp add: get_column_set_column_same get_column_set_column_other length_rows_set_column)

lemma compute_indicators_numeric: "numeric_on cols (compute_indicators parse w m d)"
  unfolding compute_indicators_steps
  by (intro numeric_on_set_column numeric_on_prepared indicator_labels)

lemma compute_indicators_bound:
  "bound ''MA'' (compute_indicators parse w m d)"
  "bound ''STD'' (compute_indicators parse w m d)"
  "bound ''Upper'' (compute_indicators parse w m d)"
  "bound ''Lower'' (compute_indicators parse w m d)"
  unfolding compute_indicators_steps
  by (intro bound_set_column_same bound_set_column_other)+

lemma compute_indicators_idem:
  fixes d :: "'d frame"
  shows "compute_indicators parse w m (compute_indicators parse w m d) =
         compute_indicators parse w m d"
proof -
  define out where "out = compute_indicators parse w m d"
  define close where "close = get_column ''Close'' (prepared parse d)"
  have p: "prepared parse out = out"
    unfolding out_def by (rule prepared_of_numeric) (rule compute_indicators_numeric)
  have c: "get_column ''Close'' out = close"
    and ma: "rolling_mean w close = get_column ''MA'' out"
    and sd: "rolling_std w close = get_column ''STD'' out"
    unfolding out_def close_def by (simp_all add: compute_indicators_columns(1,2,3))
  have up: "map2 cell_add (get_column ''MA'' out) (map (scale m) (get_column ''STD'' out)) =
            get_column ''Upper'' out"
    and lo: "map2 cell_sub (get_column ''MA'' out) (map (scale m) (get_column ''STD'' out)) =
            get_column ''Lower'' out"
    unfolding out_def by (simp_all add: compute_indicators_columns(2,3,4,5))
  have b: "bound ''MA'' out" "bound ''STD'' out" "bound ''Upper'' out" "bound ''Lower'' out"
    unfolding out_def by (rule compute_indicators_bound)+
  have "compute_indicators parse w m out = out"
    unfolding compute_indicators_steps [of parse w m out] p c ma sd up lo
    by (simp only: set_column_stored b)
  then show ?thesis
    by (simp add: out_def)
qed

lemma columns_set_column: "set (columns (set_column c vs d)) = insert c (set (columns d))"
  by (auto simp: set_column_def)

lemma columns_compute_indicators:
  "set (columns (compute_indicators parse w m d)) =
     set (columns d) \<union> {''MA'', ''STD'', ''Upper'', ''Lower''}"
  unfolding compute_indicators_steps
  by (auto simp: columns_set_column prepared_def dropna_def coerce_def)

section \<open>Columns that the computation does not write\<close>

lemma get_column_prepared:
  "get_column c (prepared parse d) =
     map (\<lambda>(i, r). if c \<in> set cols then to_numeric parse (cell_at r c) else cell_at r c)
       (filter (\<lambda>(i, r). \<forall>c \<in> set cols. \<not> coercion_fails parse r c) (rows d))"
  by (simp add: get_column_def rows_prepared cell_at_coerce_row case_prod_unfold comp_def)

lemma get_column_compute_other:
  assumes "c \<notin> {''MA'', ''STD'', ''Upper'', ''Lower''}"
  shows "get_column c (compute_indicators parse w m d) = get_column c (prepared parse d)"
  using assms unfolding compute_indicators_steps
  by (simp add: get_column_set_column_other length_rows_set_column)

lemma columns_set_column_prefix:
  assumes "take (length cs) (columns d) = cs"
  shows "take (length cs) (columns (set_column c vs d)) = cs"
proof -
  have "length (take (length cs) (columns d)) = length cs"
    using assms by simp
  then have "length cs \<le> length (columns d)"
    by simp
  then show ?thesis
    using assms by (simp add: set_column_def)
qed

lemma columns_prepared: "columns (prepared parse d) = columns d"
  by (simp add: prepared_def dropna_def coerce_def)

lemma columns_compute_indicators_prefix:
  "take (length (columns d)) (columns (compute_indicators parse w m d)) = columns d"
  unfolding compute_indicators_steps
  by (intro columns_set_column_prefix) (simp add: columns_prepared)

lemma last_get_column:
  "rows d \<noteq> [] \<Longrightarrow> last (get_column c d) = cell_at (snd (last (rows d))) c"
  by (simp add: get_column_def last_map case_prod_unfold)

section \<open>The example inputs, evaluated\<close>

lemma bar_coerces: "\<forall>c \<in> set cols. \<not> coercion_fails parse (bar x) c"
  by (simp add: cols_def coercion_fails_def cell_at_def bar_def)

lemma close_bar: "cell_at (coerce_row parse (bar x)) ''Close'' = Num x"
  by (simp add: cell_at_coerce_row cols_def) (simp add: cell_at_def bar_def)

lemma rows_prepared_three_bars:
  "rows (prepared parse three_bars) = map (\<lambda>(i, r). (i, coerce_row parse r)) (rows three_bars)"
  by (simp add: rows_prepared three_bars_def bar_coerces)

lemma close_three_bars:
  "get_column ''Close'' (prepared parse three_bars) = [Num 10, Num 20, Num 60]"
  by (simp add: get_column_def rows_prepared_three_bars) (simp add: three_bars_def close_bar)

lemma rows_prepared_ten_bars:
  "rows (prepared parse ten_bars) = map (\<lambda>(i, r). (i, coerce_row parse r)) (rows ten_bars)"
  by (simp add: rows_prepared ten_bars_def bar_coerces)

lemma close_ten_bars:
  "get_column ''Close'' (prepared parse ten_bars) =
     [Num 1, Num 2, Num 3, Num 4, Num 5, Num 6, Num 7, Num 8, Num 9, Num 10]"
  by (simp add: get_column_def rows_prepared_ten_bars) (simp add: ten_bars_def close_bar)

lemma three_bars_out:
  "data (snd (plot_bollinger_bands parse mpf_plot w m \<lparr>data = three_bars, ui = []\<rparr>)) =
   compute_indicators parse w m three_bars"
  by (simp add: plot_bollinger_bands_frame three_bars_def)

lemma ten_bars_out:
  "data (snd (plot_bollinger_bands parse mpf_plot w m \<lparr>data = ten_bars, ui = []\<rparr>)) =
   compute_indicators parse w m ten_bars"
  by (simp add: plot_bollinger_bands_frame ten_bars_def)

lemma length_three_bars_out: "length (rows (compute_indicators parse w m three_bars)) = 3"
  by (simp add: length_rows_compute rows_prepared_three_bars) (simp add: three_bars_def)


lemma sqrt_rounded: "binary64 (sqrt (5 / 2)) = 7120816245988179 / 2 ^ 52"
proof -
  have lo: "1 \<le> sqrt (5 / 2)"
    by (rule real_le_rsqrt) simp
  have hi: "sqrt (5 / 2) < 2"
    by (rule real_less_lsqrt) simp_all
  have a: "of_int 7120816245988179 - 1 / 2 < sqrt (5 / 2) * 2 ^ 52"
  proof -
    have "(7120816245988179 - 1 / 2) / 2 ^ 52 < sqrt (5 / 2)"
      by (rule real_less_rsqrt) (simp add: power2_eq_square)
    then show ?thesis by (simp add: field_simps)
  qed
  have b: "sqrt (5 / 2) * 2 ^ 52 < of_int 7120816245988179 + 1 / 2"
  proof -
    have "sqrt (5 / 2) < (7120816245988179 + 1 / 2) / 2 ^ 52"
      by (rule real_less_lsqrt) (simp_all add: power2_eq_square)
    then show ?thesis by (simp add: field_simps)
  qed
  show ?thesis
    using binary64_normal [of 0 "sqrt (5 / 2)" 7120816245988179] lo hi a b by simp
qed

lemma three_bars_rounding:
  "binary64 (2 * sqrt 700) = 1861781971660233 / 2 ^ 45"
  "binary64 (30 + 1861781971660233 / 2 ^ 45) = 2917313134325193 / 2 ^ 45"
  "binary64 (30 - 1861781971660233 / 2 ^ 45) = - 806250808995273 / 2 ^ 45"
proof -
  have lo: "32 \<le> 2 * sqrt 700"
  proof -
    have "16 \<le> sqrt 700" by (rule real_le_rsqrt) simp
    then show ?thesis by simp
  qed
  have hi: "2 * sqrt 700 < 64"
  proof -
    have "sqrt 700 < 32" by (rule real_less_lsqrt) simp_all
    then show ?thesis by simp
  qed
  have a: "of_int 7447127886640932 - 1 / 2 < 2 * sqrt 700 * 2 ^ 47"
  proof -
    have "(7447127886640932 - 1 / 2) / 2 ^ 48 < sqrt 700"
      by (rule real_less_rsqrt) (simp add: power2_eq_square)
    then show ?thesis by (simp add: field_simps)
  qed
  have b: "2 * sqrt 700 * 2 ^ 47 < of_int 7447127886640932 + 1 / 2"
  proof -
    have "sqrt 700 < (7447127886640932 + 1 / 2) / 2 ^ 48"
      by (rule real_less_lsqrt) (simp_all add: power2_eq_square)
    then show ?thesis by (simp add: field_simps)
  qed
  show "binary64 (2 * sqrt 700) = 1861781971660233 / 2 ^ 45"
    using binary64_normal [of 5 "2 * sqrt 700" 7447127886640932] lo hi a b by simp
  show "binary64 (30 + 1861781971660233 / 2 ^ 45) = 2917313134325193 / 2 ^ 45"
    using binary64_normal [of 6 "30 + 1861781971660233 / 2 ^ 45" 5834626268650386] by simp
  show "binary64 (30 - 1861781971660233 / 2 ^ 45) = - 806250808995273 / 2 ^ 45"
    using binary64_normal [of 4 "30 - 1861781971660233 / 2 ^ 45" "- 6450006471962184"] by simp
qed

lemma ten_bars_rounding:
  "binary64 (sqrt (5 / 2)) = 7120816245988179 / 2 ^ 52"
  "binary64 (8 + 7120816245988179 / 2 ^ 52) = 2696850829059509 / 2 ^ 48"
  "binary64 (8 - 7120816245988179 / 2 ^ 52) = 7226995193243947 / 2 ^ 50"
proof -
  show "binary64 (sqrt (5 / 2)) = 7120816245988179 / 2 ^ 52"
    by (rule sqrt_rounded)
  show "binary64 (8 + 7120816245988179 / 2 ^ 52) = 2696850829059509 / 2 ^ 48"
    using binary64_normal [of 3 "8 + 7120816245988179 / 2 ^ 52" 5393701658119018] by simp
  show "binary64 (8 - 7120816245988179 / 2 ^ 52) = 7226995193243947 / 2 ^ 50"
    using binary64_normal [of 2 "8 - 7120816245988179 / 2 ^ 52" 7226995193243947] by simp
qed

lemma ten_bars_difference:
  "2696850829059509 / 2 ^ 48 - 7226995193243947 / 2 ^ 50 \<noteq> 2 * 1 * sqrt (5 / 2)"
  "2696850829059509 / 2 ^ 48 - 7226995193243947 / 2 ^ 50 \<noteq> 2 * 1 * binary64 (sqrt (5 / 2))"
proof -
  show "2696850829059509 / 2 ^ 48 - 7226995193243947 / 2 ^ 50 \<noteq> 2 * 1 * sqrt (5 / 2)"
  proof
    assume "2696850829059509 / 2 ^ 48 - 7226995193243947 / 2 ^ 50 = 2 * 1 * sqrt (5 / 2)"
    then have "sqrt (5 / 2) = 3560408122994089 / 2 ^ 51"
      by simp
    then have "(3560408122994089 / 2 ^ 51)\<^sup>2 = (5 / 2 :: real)"
      by (metis real_sqrt_pow2 divide_nonneg_nonneg zero_le_numeral)
    then show False
      by (simp add: power2_eq_square)
  qed
  show "2696850829059509 / 2 ^ 48 - 7226995193243947 / 2 ^ 50 \<noteq> 2 * 1 * binary64 (sqrt (5 / 2))"
    unfolding sqrt_rounded by simp
qed

lemma three_bars_indicators:
  "get_column ''MA'' (compute_indicators parse 3 m three_bars) ! 2 = Num 30"
  "get_column ''STD'' (compute_indicators parse 3 m three_bars) ! 2 = Num (sqrt 700)"
proof -
  have w: "window_at 3 [10, 20, 60 :: real] 2 = [10, 20, 60]"
    by (simp add: window_at_def)
  show "get_column ''MA'' (compute_indicators parse 3 m three_bars) ! 2 = Num 30"
    using rolling_mean_nth [of 2 "[10, 20, 60]" 3]
    by (simp add: compute_indicators_columns(2) close_three_bars w mean_def)
  show "get_column ''STD'' (compute_indicators parse 3 m three_bars) ! 2 = Num (sqrt 700)"
    using rolling_std_nth [of 2 "[10, 20, 60]" 3]
    by (simp add: compute_indicators_columns(3) close_three_bars w sample_var_def mean_def)
qed

lemma band_cells:
  assumes "a = NaN \<or> (\<exists>x. a = Num x)" and "b = NaN \<or> (\<exists>x. b = Num x)"
  shows "(cell_add a (scale m b) = NaN \<longleftrightarrow> a = NaN \<or> b = NaN)"
    and "(cell_sub a (scale m b) = NaN \<longleftrightarrow> a = NaN \<or> b = NaN)"
  using assms by auto

lemma band_values:
  "cell_add (Num x) (scale m (Num y)) = Num (binary64 (x + binary64 (m * y)))"
  "cell_sub (Num x) (scale m (Num y)) = Num (binary64 (x - binary64 (m * y)))"
  by simp_all

lemma three_bars_bands:
  "get_column ''Upper'' (compute_indicators parse 3 2 three_bars) ! 2 =
     Num (2917313134325193 / 2 ^ 45)"
  "get_column ''Lower'' (compute_indicators parse 3 2 three_bars) ! 2 =
     Num (- 806250808995273 / 2 ^ 45)"
proof -
  have ma: "rolling_mean 3 [Num 10, Num 20, Num 60] ! 2 = Num 30"
    using three_bars_indicators(1) [of parse 2]
    by (simp add: compute_indicators_columns(2) close_three_bars)
  have sd: "rolling_std 3 [Num 10, Num 20, Num 60] ! 2 = Num (sqrt 700)"
    using three_bars_indicators(2) [of parse 2]
    by (simp add: compute_indicators_columns(3) close_three_bars)
  have "get_column ''Upper'' (compute_indicators parse 3 2 three_bars) ! 2 =
          Num (binary64 (30 + binary64 (2 * sqrt 700)))"
    by (simp add: compute_indicators_columns(4) close_three_bars ma sd)
  then show "get_column ''Upper'' (compute_indicators parse 3 2 three_bars) ! 2 =
          Num (2917313134325193 / 2 ^ 45)"
    by (simp only: three_bars_rounding)
  have "get_column ''Lower'' (compute_indicators parse 3 2 three_bars) ! 2 =
          Num (binary64 (30 - binary64 (2 * sqrt 700)))"
    by (simp add: compute_indicators_columns(5) close_three_bars ma sd)
  then show "get_column ''Lower'' (compute_indicators parse 3 2 three_bars) ! 2 =
          Num (- 806250808995273 / 2 ^ 45)"
    by (simp only: three_bars_rounding)
qed

lemma ten_bars_indicators:
  "get_column ''MA'' (compute_indicators parse 5 m ten_bars) ! 9 = Num 8"
  "get_column ''STD'' (compute_indicators parse 5 m ten_bars) ! 9 = Num (sqrt (5 / 2))"
proof -
  have w: "window_at 5 [1, 2, 3, 4, 5, 6, 7, 8, 9, 10 :: real] 9 = [6, 7, 8, 9, 10]"
    by (simp add: window_at_def)
  show "get_column ''MA'' (compute_indicators parse 5 m ten_bars) ! 9 = Num 8"
    using rolling_mean_nth [of 9 "[1, 2, 3, 4, 5, 6, 7, 8, 9, 10]" 5]
    by (simp add: compute_indicators_columns(2) close_ten_bars w mean_def)
  show "get_column ''STD'' (compute_indicators parse 5 m ten_bars) ! 9 = Num (sqrt (5 / 2))"
    using rolling_std_nth [of 9 "[1, 2, 3, 4, 5, 6, 7, 8, 9, 10]" 5]
    by (simp add: compute_indicators_columns(3) close_ten_bars w sample_var_def mean_def)
qed

lemma ten_bars_bands:
  "get_column ''Upper'' (compute_indicators parse 5 1 ten_bars) ! 9 =
     Num (2696850829059509 / 2 ^ 48)"
  "get_column ''Lower'' (compute_indicators parse 5 1 ten_bars) ! 9 =
     Num (7226995193243947 / 2 ^ 50)"
proof -
  let ?close = "[Num 1, Num 2, Num 3, Num 4, Num 5, Num 6, Num 7, Num 8, Num 9, Num 10]"
  have ma: "rolling_mean 5 ?close ! 9 = Num 8"
    using ten_bars_indicators(1) [of parse 1]
    by (simp add: compute_indicators_columns(2) close_ten_bars)
  have sd: "rolling_std 5 ?close ! 9 = Num (sqrt (5 / 2))"
    using ten_bars_indicators(2) [of parse 1]
    by (simp add: compute_indicators_columns(3) close_ten_bars)
  have "get_column ''Upper'' (compute_indicators parse 5 1 ten_bars) ! 9 =
          Num (binary64 (8 + binary64 (sqrt (5 / 2))))"
    by (simp add: compute_indicators_columns(4) close_ten_bars ma sd)
  then show "get_column ''Upper'' (compute_indicators parse 5 1 ten_bars) ! 9 =
          Num (2696850829059509 / 2 ^ 48)"
    by (simp only: ten_bars_rounding)
  have "get_column ''Lower'' (compute_indicators parse 5 1 ten_bars) ! 9 =
          Num (binary64 (8 - binary64 (sqrt (5 / 2))))"
    by (simp add: compute_indicators_columns(5) close_ten_bars ma sd)
  then show "get_column ''Lower'' (compute_indicators parse 5 1 ten_bars) ! 9 =
          Num (7226995193243947 / 2 ^ 50)"
    by (simp only: ten_bars_rounding)
qed

lemma gap_bars_kept:
  "filter (\<lambda>(i, r). \<forall>c \<in> set cols. \<not> coercion_fails (\<lambda>t. None) r c) (rows gap_bars) =
     [(0, (bar 10)(''Note'' \<mapsto> Obj ''a'')), (2, (bar 60)(''Note'' \<mapsto> Obj ''c''))]"
  by (simp add: gap_bars_def cols_def coercion_fails_def cell_at_def bar_def)

lemma last_three:
  assumes "length xs = 3"
  shows "last xs = xs ! 2"
proof -
  have "xs \<noteq> []"
    using assms by auto
  then show ?thesis
    using assms by (simp add: last_conv_nth)
qed

lemma index_three_bars_out:
  "map fst (rows (compute_indicators parse w m three_bars)) = [0, 1, 2]"
  by (simp add: compute_indicators_columns(6) rows_prepared_three_bars) (simp add: three_bars_def)

section \<open>The moving average\<close>

text \<open>
  C1. Let the frame have the five required columns and let the window be at least 1. In
  the frame that \<open>plot_bollinger_bands\<close> leaves behind, every Close cell is a number, the
  MA cell at position \<open>i\<close> is defined (not NaN) exactly when \<open>i \<ge> w - 1\<close>, and there it is
  the arithmetic mean of the \<open>w\<close> Close values at positions \<open>i - w + 1\<close> to \<open>i\<close>. Positions
  are those of the series after the coercion and the removal of rows.
\<close>

theorem moving_average_is_trailing_mean:
  fixes s :: "('d, 'fig) session" and parse :: "string \<Rightarrow> real option"
    and mpf_plot :: "'d frame \<Rightarrow> py_error + 'fig" and w :: nat and num_std :: real
  defines "out \<equiv> data (snd (plot_bollinger_bands parse mpf_plot w num_std s))"
  defines "close \<equiv> observations (get_column ''Close'' out)"
  assumes schema: "set cols \<subseteq> set (columns (data s))"
      and w: "1 \<le> w"
      and i: "i < length (rows out)"
  shows "get_column ''Close'' out = map Num close \<and>
         (get_column ''MA'' out ! i \<noteq> NaN \<longleftrightarrow> w - 1 \<le> i) \<and>
         (w - 1 \<le> i \<longrightarrow>
            get_column ''MA'' out ! i = Num ((\<Sum>j = i + 1 - w..i. close ! j) / real w))"
proof -
  have out: "out = compute_indicators parse w num_std (data s)"
    using schema by (simp add: out_def plot_bollinger_bands_frame)
  have c: "get_column ''Close'' out = map Num close"
    by (simp add: close_def out compute_indicators_columns(1) close_prepared)
  have len: "i < length close"
    using i c by (metis length_get_column length_map)
  have ma: "get_column ''MA'' out ! i =
              (if 1 \<le> w \<and> w \<le> Suc i then Num (mean (window_at w close i)) else NaN)"
    using rolling_mean_nth [OF len, of w] c
    by (simp add: out compute_indicators_columns(1,2))
  have "mean (window_at w close i) = (\<Sum>j = i + 1 - w..i. close ! j) / real w" if "w \<le> Suc i"
    using that w len by (simp add: mean_def sum_list_window_at length_window_at)
  with c ma w show ?thesis
    by auto
qed

theorem moving_average_is_trailing_mean_witness:
  "set cols \<subseteq> set (columns (data \<lparr>data = three_bars, ui = []\<rparr>)) \<and> (1::nat) \<le> 2 \<and>
   2 < length (rows (data (snd (plot_bollinger_bands (\<lambda>t. None) (\<lambda>d. Inr ()) 2 1
                                 \<lparr>data = three_bars, ui = []\<rparr>)))) \<and>
   get_column ''MA'' (data (snd (plot_bollinger_bands (\<lambda>t. None) (\<lambda>d. Inr ()) 2 1
                                 \<lparr>data = three_bars, ui = []\<rparr>))) ! 2 = Num 40"
proof -
  let ?s = "\<lparr>data = three_bars, ui = []\<rparr> :: (nat, unit) session"
  let ?out = "data (snd (plot_bollinger_bands (\<lambda>t. None) (\<lambda>d. Inr ()) 2 1 ?s))"
  have schema: "set cols \<subseteq> set (columns (data ?s))"
    by (simp add: three_bars_def)
  have out: "?out = compute_indicators (\<lambda>t. None) 2 1 three_bars"
    using schema by (simp add: plot_bollinger_bands_frame)
  have len: "2 < length (rows ?out)"
    by (simp add: out length_rows_compute rows_prepared_three_bars) (simp add: three_bars_def)
  have close: "observations (get_column ''Close'' ?out) = [10, 20, 60]"
    by (simp add: out compute_indicators_columns(1) close_three_bars)
  have "get_column ''MA'' ?out ! 2 = Num ((\<Sum>j = 2 + 1 - 2..2. [10, 20, 60 :: real] ! j) / real 2)"
    using moving_average_is_trailing_mean [OF schema _ len] close by simp
  also have "(\<Sum>j = 2 + 1 - 2..2. [10, 20, 60 :: real] ! j) = 80"
    by (simp add: numeral_2_eq_2)
  finally show ?thesis
    using schema len by simp
qed

section \<open>The rolling standard deviation\<close>




section \<open>The bands\<close>

text \<open>
  C3, as stated, on the ten bars with the closes 1 to 10, window 5 and multiplier 1, at
  position 9. The MA cell is 8 and the STD cell is the square root of 5/2. The Upper and
  Lower cells are the 64-bit floats that the sum and the difference are rounded to
  (9.581138830084189 and 6.41886116991581), and their difference is not 2 times 1 times the
  deviation, neither the exact one nor the one rounded to a 64-bit float.
\<close>

theorem band_difference_counterexample:
  "get_column ''Upper'' (data (snd (plot_bollinger_bands (\<lambda>t. None) (\<lambda>d. Inr ()) 5 1
                                 \<lparr>data = ten_bars, ui = []\<rparr>))) ! 9 =
     Num (2696850829059509 / 2 ^ 48) \<and>
   get_column ''Lower'' (data (snd (plot_bollinger_bands (\<lambda>t. None) (\<lambda>d. Inr ()) 5 1
                                 \<lparr>data = ten_bars, ui = []\<rparr>))) ! 9 =
     Num (7226995193243947 / 2 ^ 50) \<and>
   get_column ''STD'' (data (snd (plot_bollinger_bands (\<lambda>t. None) (\<lambda>d. Inr ()) 5 1
                                 \<lparr>data = ten_bars, ui = []\<rparr>))) ! 9 =
     Num (sqrt (5 / 2)) \<and>
   2696850829059509 / 2 ^ 48 - 7226995193243947 / 2 ^ 50 \<noteq> 2 * 1 * sqrt (5 / 2) \<and>
   2696850829059509 / 2 ^ 48 - 7226995193243947 / 2 ^ 50 \<noteq> 2 * 1 * binary64 (sqrt (5 / 2))"
  using ten_bars_bands [of "\<lambda>t. None"] ten_bars_indicators(2) [of "\<lambda>t. None" 1]
    ten_bars_difference
  by (simp only: ten_bars_out) blast

text \<open>
  C3, amended. Let the frame have the five required columns. At every position the Upper
  cell is the MA cell plus \<open>num_std\<close> times the STD cell and the Lower cell is the MA cell
  minus that, the product, the sum and the difference being those of 64-bit floats; each
  band is absent exactly when the MA or the STD cell is absent; and where both bands are
  numbers, their difference is \<open>2 * num_std\<close> times the STD cell up to the rounding of
  these operations: it differs from it by at most \<open>(|MA| + 3 * |num_std * STD|) / 2^52\<close>.
\<close>

theorem bands_are_average_plus_minus_deviation:
  fixes s :: "('d, 'fig) session" and parse :: "string \<Rightarrow> real option"
    and mpf_plot :: "'d frame \<Rightarrow> py_error + 'fig" and w :: nat and num_std :: real and i :: nat
  defines "out \<equiv> data (snd (plot_bollinger_bands parse mpf_plot w num_std s))"
  defines "ma \<equiv> get_column ''MA'' out ! i" and "sd \<equiv> get_column ''STD'' out ! i"
  defines "upper \<equiv> get_column ''Upper'' out ! i" and "lower \<equiv> get_column ''Lower'' out ! i"
  assumes schema: "set cols \<subseteq> set (columns (data s))"
      and i: "i < length (rows out)"
  shows "upper = cell_add ma (scale num_std sd) \<and>
         lower = cell_sub ma (scale num_std sd) \<and>
         (upper = NaN \<longleftrightarrow> ma = NaN \<or> sd = NaN) \<and>
         (lower = NaN \<longleftrightarrow> ma = NaN \<or> sd = NaN) \<and>
         (\<forall>a d. ma = Num a \<and> sd = Num d \<longrightarrow>
            upper = Num (binary64 (a + binary64 (num_std * d))) \<and>
            lower = Num (binary64 (a - binary64 (num_std * d))) \<and>
            (\<forall>u l. upper = Num u \<and> lower = Num l \<longrightarrow>
               \<bar>(u - l) - 2 * num_std * d\<bar> \<le> (\<bar>a\<bar> + 3 * \<bar>num_std * d\<bar>) / 2 ^ 52))"
proof -
  let ?close = "get_column ''Close'' (prepared parse (data s))"
  have out: "out = compute_indicators parse w num_std (data s)"
    using schema by (simp add: out_def plot_bollinger_bands_frame)
  have n: "i < length ?close"
    using i by (simp add: out length_rows_compute)
  have ma: "ma = rolling_mean w ?close ! i" and sd: "sd = rolling_std w ?close ! i"
    by (simp_all add: ma_def sd_def out compute_indicators_columns(2,3))
  have up: "upper = cell_add ma (scale num_std sd)"
    using n by (simp add: upper_def ma sd out compute_indicators_columns(4))
  have lo: "lower = cell_sub ma (scale num_std sd)"
    using n by (simp add: lower_def ma sd out compute_indicators_columns(5))
  have a: "ma = NaN \<or> (\<exists>x. ma = Num x)"
    unfolding ma using n by (rule rolling_mean_cases)
  have b: "sd = NaN \<or> (\<exists>x. sd = Num x)"
    unfolding sd using n by (rule rolling_std_cases)
  have absent: "(upper = NaN \<longleftrightarrow> ma = NaN \<or> sd = NaN) \<and> (lower = NaN \<longleftrightarrow> ma = NaN \<or> sd = NaN)"
    unfolding up lo using band_cells [OF a b, of num_std] by blast
  have vals: "upper = Num (binary64 (x + binary64 (num_std * y))) \<and>
                lower = Num (binary64 (x - binary64 (num_std * y))) \<and>
                (\<forall>u l. upper = Num u \<and> lower = Num l \<longrightarrow>
                   \<bar>(u - l) - 2 * num_std * y\<bar> \<le> (\<bar>x\<bar> + 3 * \<bar>num_std * y\<bar>) / 2 ^ 52)"
    if "ma = Num x \<and> sd = Num y" for x y
  proof -
    have u: "upper = Num (binary64 (x + binary64 (num_std * y)))"
      and l: "lower = Num (binary64 (x - binary64 (num_std * y)))"
      using that by (simp_all add: up lo band_values)
    show ?thesis
      using band_difference_error [of x num_std y] by (simp add: u l)
  qed
  from up lo absent vals show ?thesis
    by blast
qed

theorem bands_are_average_plus_minus_deviation_witness:
  "set cols \<subseteq> set (columns (data \<lparr>data = three_bars, ui = []\<rparr>)) \<and>
   2 < length (rows (data (snd (plot_bollinger_bands (\<lambda>t. None) (\<lambda>d. Inr ()) 3 2
                                 \<lparr>data = three_bars, ui = []\<rparr>)))) \<and>
   get_column ''MA'' (data (snd (plot_bollinger_bands (\<lambda>t. None) (\<lambda>d. Inr ()) 3 2
                                 \<lparr>data = three_bars, ui = []\<rparr>))) ! 2 = Num 30 \<and>
   get_column ''STD'' (data (snd (plot_bollinger_bands (\<lambda>t. None) (\<lambda>d. Inr ()) 3 2
                                 \<lparr>data = three_bars, ui = []\<rparr>))) ! 2 = Num (sqrt 700) \<and>
   get_column ''Upper'' (data (snd (plot_bollinger_bands (\<lambda>t. None) (\<lambda>d. Inr ()) 3 2
                                 \<lparr>data = three_bars, ui = []\<rparr>))) ! 2 =
     Num (2917313134325193 / 2 ^ 45) \<and>
   get_column ''Lower'' (data (snd (plot_bollinger_bands (\<lambda>t. None) (\<lambda>d. Inr ()) 3 2
                                 \<lparr>data = three_bars, ui = []\<rparr>))) ! 2 =
     Num (- 806250808995273 / 2 ^ 45) \<and>
   \<bar>(2917313134325193 / 2 ^ 45 - (- 806250808995273 / 2 ^ 45)) - 2 * 2 * sqrt 700\<bar>
     \<le> (\<bar>30\<bar> + 3 * \<bar>2 * sqrt 700\<bar>) / 2 ^ 52"
proof -
  let ?s = "\<lparr>data = three_bars, ui = []\<rparr> :: (nat, unit) session"
  let ?out = "data (snd (plot_bollinger_bands (\<lambda>t. None) (\<lambda>d. Inr ()) 3 2 ?s))"
  have schema: "set cols \<subseteq> set (columns (data ?s))"
    by (simp add: three_bars_def)
  have i: "2 < length (rows ?out)"
    by (simp add: three_bars_out length_three_bars_out)
  have ma: "get_column ''MA'' ?out ! 2 = Num 30"
    and sd: "get_column ''STD'' ?out ! 2 = Num (sqrt 700)"
    by (simp_all add: three_bars_out three_bars_indicators)
  note t = bands_are_average_plus_minus_deviation [OF schema i]
  from t ma sd
  have up0: "get_column ''Upper'' ?out ! 2 = Num (binary64 (30 + binary64 (2 * sqrt 700)))"
    and lo0: "get_column ''Lower'' ?out ! 2 = Num (binary64 (30 - binary64 (2 * sqrt 700)))"
    by blast+
  have up: "get_column ''Upper'' ?out ! 2 = Num (2917313134325193 / 2 ^ 45)"
    using up0 by (simp only: three_bars_rounding)
  have lo: "get_column ''Lower'' ?out ! 2 = Num (- 806250808995273 / 2 ^ 45)"
    using lo0 by (simp only: three_bars_rounding)
  from t ma sd up lo
  have bound: "\<bar>(2917313134325193 / 2 ^ 45 - (- 806250808995273 / 2 ^ 45)) - 2 * 2 * sqrt 700\<bar>
          \<le> (\<bar>30\<bar> + 3 * \<bar>2 * sqrt 700\<bar>) / 2 ^ 52"
    by blast
  show ?thesis
    using schema i ma sd up lo bound by simp
qed

section \<open>A series shorter than the window\<close>

text \<open>
  C8. Let the frame have the five required columns and at least one row, and fewer rows
  than the window. Then MA, STD, Upper and Lower are absent at every row of the frame that
  \<open>plot_bollinger_bands\<close> leaves behind, whether the chart library then returns a figure or
  raises (the example is run with a chart library that raises ValueError).
\<close>

theorem short_series_has_no_indicators:
  fixes s :: "('d, 'fig) session" and parse :: "string \<Rightarrow> real option"
    and mpf_plot :: "'d frame \<Rightarrow> py_error + 'fig" and w :: nat and num_std :: real
  defines "out \<equiv> data (snd (plot_bollinger_bands parse mpf_plot w num_std s))"
  assumes schema: "set cols \<subseteq> set (columns (data s))"
      and nonempty: "rows (data s) \<noteq> []"
      and short: "length (rows (data s)) < w"
      and i: "i < length (rows out)"
  shows "get_column ''MA'' out ! i = NaN \<and> get_column ''STD'' out ! i = NaN \<and>
         get_column ''Upper'' out ! i = NaN \<and> get_column ''Lower'' out ! i = NaN"
proof -
  let ?close = "get_column ''Close'' (prepared parse (data s))"
  have out: "out = compute_indicators parse w num_std (data s)"
    using schema by (simp add: out_def plot_bollinger_bands_frame)
  have n: "i < length ?close"
    using i by (simp add: out length_rows_compute)
  have "length ?close \<le> length (rows (data s))"
    by (simp add: length_rows_prepared)
  with short have l: "length ?close < w"
    by simp
  have ma: "rolling_mean w ?close ! i = NaN"
    using l n by (rule rolling_mean_short)
  have sd: "rolling_std w ?close ! i = NaN"
    using l n by (rule rolling_std_short)
  show ?thesis
    using n ma sd by (simp add: out compute_indicators_columns(2,3,4,5))
qed

theorem short_series_has_no_indicators_witness:
  "set cols \<subseteq> set (columns (data \<lparr>data = three_bars, ui = []\<rparr>)) \<and>
   rows (data \<lparr>data = three_bars, ui = []\<rparr>) \<noteq> [] \<and>
   length (rows (data \<lparr>data = three_bars, ui = []\<rparr>)) < 5 \<and>
   0 < length (rows (data (snd (plot_bollinger_bands (\<lambda>t. None) (\<lambda>d. Inl ValueError :: py_error + unit) 5 2
                                 \<lparr>data = three_bars, ui = []\<rparr>)))) \<and>
   get_column ''MA'' (data (snd (plot_bollinger_bands (\<lambda>t. None) (\<lambda>d. Inl ValueError :: py_error + unit) 5 2
                                 \<lparr>data = three_bars, ui = []\<rparr>))) ! 0 = NaN \<and>
   get_column ''STD'' (data (snd (plot_bollinger_bands (\<lambda>t. None) (\<lambda>d. Inl ValueError :: py_error + unit) 5 2
                                 \<lparr>data = three_bars, ui = []\<rparr>))) ! 0 = NaN \<and>
   get_column ''Upper'' (data (snd (plot_bollinger_bands (\<lambda>t. None) (\<lambda>d. Inl ValueError :: py_error + unit) 5 2
                                 \<lparr>data = three_bars, ui = []\<rparr>))) ! 0 = NaN \<and>
   get_column ''Lower'' (data (snd (plot_bollinger_bands (\<lambda>t. None) (\<lambda>d. Inl ValueError :: py_error + unit) 5 2
                                 \<lparr>data = three_bars, ui = []\<rparr>))) ! 0 = NaN"
proof -
  let ?s = "\<lparr>data = three_bars, ui = []\<rparr> :: (nat, unit) session"
  let ?out = "data (snd (plot_bollinger_bands (\<lambda>t. None) (\<lambda>d. Inl ValueError :: py_error + unit) 5 2 ?s))"
  have schema: "set cols \<subseteq> set (columns (data ?s))"
    by (simp add: three_bars_def)
  have ne: "rows (data ?s) \<noteq> []" and short: "length (rows (data ?s)) < 5"
    by (simp_all add: three_bars_def)
  have i: "0 < length (rows ?out)"
    by (simp add: three_bars_out length_three_bars_out)
  show ?thesis
    using schema ne short i short_series_has_no_indicators [OF schema ne short i]
    by (intro conjI) simp_all
qed

section \<open>Running the function twice\<close>

text \<open>
  C4. Calling \<open>plot_bollinger_bands\<close> a second time on the same frame object with the same
  window and multiplier ends as the first call did (the same figure, the same exception of
  the chart library, or \<open>None\<close>) and leaves the frame exactly as the first call left it: the
  same rows and the same MA, STD, Upper and Lower cells. (That two runs from equal inputs
  give equal outputs holds of every function of this model.)
\<close>

theorem second_run_changes_nothing:
  fixes s :: "('d, 'fig) session" and parse :: "string \<Rightarrow> real option"
    and mpf_plot :: "'d frame \<Rightarrow> py_error + 'fig" and w :: nat and num_std :: real
  defines "first \<equiv> plot_bollinger_bands parse mpf_plot w num_std s"
  defines "second \<equiv> plot_bollinger_bands parse mpf_plot w num_std (snd first)"
  shows "fst second = fst first \<and> data (snd second) = data (snd first)"
proof (cases "set cols \<subseteq> set (columns (data s))")
  case True
  have f: "snd first = s\<lparr>data := compute_indicators parse w num_std (data s)\<rparr>"
    using True by (simp add: first_def plot_bollinger_bands_frame)
  have again: "set cols \<subseteq> set (columns (data (snd first)))"
    using True by (auto simp: f columns_compute_indicators)
  have 1: "fst first =
             (case mpf_plot (compute_indicators parse w num_std (data s)) of
                Inl e \<Rightarrow> Inl e | Inr fig \<Rightarrow> Inr (Some fig))"
    using True by (simp add: first_def plot_bollinger_bands_result)
  have 2: "fst second =
             (case mpf_plot (compute_indicators parse w num_std (data (snd first))) of
                Inl e \<Rightarrow> Inl e | Inr fig \<Rightarrow> Inr (Some fig))"
    using again by (simp add: second_def plot_bollinger_bands_result)
  have 3: "data (snd second) = compute_indicators parse w num_std (data (snd first))"
    using again by (simp add: second_def plot_bollinger_bands_frame)
  show ?thesis
    by (simp add: 1 2 3 f compute_indicators_idem)
next
  case False
  then have 1: "first = (Inr None, s\<lparr>ui := ui s @ [StError (SchemaMismatch (columns (data s)))]\<rparr>)"
    by (simp add: first_def plot_bollinger_bands_mismatch)
  have "\<not> set cols \<subseteq> set (columns (data (snd first)))"
    using False by (simp add: 1)
  then show ?thesis
    by (simp add: second_def plot_bollinger_bands_mismatch) (simp add: 1)
qed

theorem second_run_changes_nothing_witness:
  "fst (plot_bollinger_bands (\<lambda>t. None) (\<lambda>d. Inr ()) 2 1
          (snd (plot_bollinger_bands (\<lambda>t. None) (\<lambda>d. Inr ()) 2 1 \<lparr>data = three_bars, ui = []\<rparr>))) =
   fst (plot_bollinger_bands (\<lambda>t. None) (\<lambda>d. Inr ()) 2 1 \<lparr>data = three_bars, ui = []\<rparr>) \<and>
   data (snd (plot_bollinger_bands (\<lambda>t. None) (\<lambda>d. Inr ()) 2 1
          (snd (plot_bollinger_bands (\<lambda>t. None) (\<lambda>d. Inr ()) 2 1 \<lparr>data = three_bars, ui = []\<rparr>)))) =
   data (snd (plot_bollinger_bands (\<lambda>t. None) (\<lambda>d. Inr ()) 2 1 \<lparr>data = three_bars, ui = []\<rparr>))"
  by (rule second_run_changes_nothing)

section \<open>A missing required column\<close>

text \<open>
  C5. If one of Open, High, Low, Close, Volume is not a column of the frame, the function
  returns \<open>None\<close> (no chart, no exception), the only thing it puts on the page is the error message with
  the list of the columns that are there, and the frame is what it was: nothing was
  coerced and no indicator column was added.
\<close>

theorem missing_field_is_reported:
  fixes s :: "('d, 'fig) session" and parse :: "string \<Rightarrow> real option"
    and mpf_plot :: "'d frame \<Rightarrow> py_error + 'fig" and w :: nat and num_std :: real
  defines "result \<equiv> plot_bollinger_bands parse mpf_plot w num_std s"
  assumes "c \<in> set cols" and "c \<notin> set (columns (data s))"
  shows "fst result = Inr None \<and>
         ui (snd result) = ui s @ [StError (SchemaMismatch (columns (data s)))] \<and>
         data (snd result) = data s"
proof -
  have "\<not> set cols \<subseteq> set (columns (data s))"
    using assms(2,3) by auto
  then show ?thesis
    by (simp add: result_def plot_bollinger_bands_mismatch)
qed

theorem missing_field_is_reported_witness:
  "''Volume'' \<in> set cols \<and> ''Volume'' \<notin> set (columns (data \<lparr>data = no_volume, ui = []\<rparr>)) \<and>
   fst (plot_bollinger_bands (\<lambda>t. None) (\<lambda>d. Inr ()) 20 2 \<lparr>data = no_volume, ui = []\<rparr>) = Inr None \<and>
   ui (snd (plot_bollinger_bands (\<lambda>t. None) (\<lambda>d. Inr ()) 20 2 \<lparr>data = no_volume, ui = []\<rparr>)) =
     [StError (SchemaMismatch [''Open'', ''High'', ''Low'', ''Close''])] \<and>
   data (snd (plot_bollinger_bands (\<lambda>t. None) (\<lambda>d. Inr ()) 20 2 \<lparr>data = no_volume, ui = []\<rparr>)) = no_volume"
proof -
  let ?s = "\<lparr>data = no_volume, ui = []\<rparr> :: (nat, unit) session"
  have 1: "''Volume'' \<in> set cols"
    by (simp add: cols_def)
  have 2: "''Volume'' \<notin> set (columns (data ?s))"
    by (simp add: no_volume_def)
  have 3: "columns (data ?s) = [''Open'', ''High'', ''Low'', ''Close'']"
    by (simp add: no_volume_def)
  show ?thesis
    using 1 2 missing_field_is_reported [OF 1 2, of "\<lambda>t. None" "\<lambda>d. Inr ()" 20 2] 3 by simp
qed

section \<open>Rows that fail the coercion\<close>

text \<open>
  C6. Let the frame have the five required columns. The rows of the frame after the call
  are, in order, exactly the rows in which none of the five cells fails the coercion (a
  cell fails when \<open>to_numeric\<close> leaves NaN for it); a row with one failing cell is gone
  with its index label and all its cells. Under each required column the kept rows hold
  the coerced cells, and these are numbers.
\<close>

theorem failed_rows_are_dropped_whole:
  fixes s :: "('d, 'fig) session" and parse :: "string \<Rightarrow> real option"
    and mpf_plot :: "'d frame \<Rightarrow> py_error + 'fig" and w :: nat and num_std :: real
  defines "out \<equiv> data (snd (plot_bollinger_bands parse mpf_plot w num_std s))"
  defines "kept \<equiv> filter (\<lambda>(i, r). \<forall>c \<in> set cols. \<not> coercion_fails parse r c) (rows (data s))"
  assumes schema: "set cols \<subseteq> set (columns (data s))"
  shows "map fst (rows out) = map fst kept \<and>
         (\<forall>c \<in> set cols. get_column c out = map (\<lambda>(i, r). to_numeric parse (cell_at r c)) kept \<and>
                          (\<forall>v \<in> set (get_column c out). \<exists>x. v = Num x))"
proof -
  have out: "out = compute_indicators parse w num_std (data s)"
    using schema by (simp add: out_def plot_bollinger_bands_frame)
  have 1: "map fst (rows out) = map fst kept"
    by (simp add: out compute_indicators_columns(6) rows_prepared kept_def case_prod_unfold comp_def)
  have 2: "get_column c out = map (\<lambda>(i, r). to_numeric parse (cell_at r c)) kept"
    if "c \<in> set cols" for c
  proof -
    have "c \<notin> {''MA'', ''STD'', ''Upper'', ''Lower''}"
      using that by (auto simp: cols_def)
    then show ?thesis
      using that by (simp add: out get_column_compute_other get_column_prepared kept_def)
  qed
  have 3: "\<forall>v \<in> set (get_column c out). \<exists>x. v = Num x" if "c \<in> set cols" for c
    unfolding 2 [OF that] using that to_numeric_cases [of parse]
    by (auto simp: kept_def coercion_fails_def)
  from 1 2 3 show ?thesis by blast
qed

theorem failed_rows_are_dropped_whole_witness:
  "set cols \<subseteq> set (columns (data \<lparr>data = gap_bars, ui = []\<rparr>)) \<and> ''Volume'' \<in> set cols \<and>
   map fst (rows (data (snd (plot_bollinger_bands (\<lambda>t. None) (\<lambda>d. Inr ()) 2 1
                               \<lparr>data = gap_bars, ui = []\<rparr>)))) = [0, 2] \<and>
   get_column ''Volume'' (data (snd (plot_bollinger_bands (\<lambda>t. None) (\<lambda>d. Inr ()) 2 1
                               \<lparr>data = gap_bars, ui = []\<rparr>))) = [Num 100, Num 100]"
proof -
  let ?s = "\<lparr>data = gap_bars, ui = []\<rparr> :: (nat, unit) session"
  have schema: "set cols \<subseteq> set (columns (data ?s))"
    by (auto simp: gap_bars_def)
  have v: "''Volume'' \<in> set cols"
    by (simp add: cols_def)
  note t = failed_rows_are_dropped_whole [OF schema, of "\<lambda>t. None" "\<lambda>d. Inr ()" 2 1]
  have 1: "map fst (rows (data (snd (plot_bollinger_bands (\<lambda>t. None) (\<lambda>d. Inr ()) 2 1 ?s)))) = [0, 2]"
    using t by (simp add: gap_bars_kept)
  have "get_column ''Volume'' (data (snd (plot_bollinger_bands (\<lambda>t. None) (\<lambda>d. Inr ()) 2 1 ?s))) =
        map (\<lambda>(i, r). to_numeric (\<lambda>t. None) (cell_at r ''Volume''))
          [(0, (bar 10)(''Note'' \<mapsto> Obj ''a'')), (2, (bar 60)(''Note'' \<mapsto> Obj ''c''))]"
    using t v by (simp add: gap_bars_kept)
  then have 2: "get_column ''Volume'' (data (snd (plot_bollinger_bands (\<lambda>t. None) (\<lambda>d. Inr ()) 2 1 ?s))) =
        [Num 100, Num 100]"
    by (simp add: cell_at_def bar_def)
  show ?thesis
    using schema v 1 2 by simp
qed

section \<open>An empty download\<close>

text \<open>
  C7. When the downloaded frame is empty, the query ends without an exception and the
  page holds the error message about missing history and nothing else: no row count, no
  preview, no chart and no summary.
\<close>

theorem empty_download_is_reported:
  assumes "empty_frame downloaded"
  shows "query parse mpf_plot w num_std downloaded = (None, [StError NoHistory])"
  using assms by (simp add: query_def)

theorem empty_download_is_reported_witness:
  "empty_frame no_bars \<and>
   query (\<lambda>t. None) (\<lambda>d. Inr ()) 20 2 no_bars = (None, [StError NoHistory])"
proof -
  have e: "empty_frame no_bars"
    by (simp add: empty_frame_def no_bars_def)
  show ?thesis
    using e empty_download_is_reported [OF e] by simp
qed

section \<open>What the call changes\<close>

text \<open>
  C9. What a call of \<open>plot_bollinger_bands\<close> changes in the session. When the required
  columns are there, nothing is put on the page during the call and nothing but the frame
  changes; the frame becomes the augmented one: its old columns in their order followed by
  the new ones, the index labels of the kept rows, and every cell outside the five
  required and the four indicator columns as it was. When a required column is missing,
  the frame is not changed at all and the page gets the one error message, which lists the
  columns of the unchanged frame. So no change of the frame is shown to anyone before the
  call returns.
\<close>

theorem engine_changes_only_the_frame:
  fixes s :: "('d, 'fig) session" and parse :: "string \<Rightarrow> real option"
    and mpf_plot :: "'d frame \<Rightarrow> py_error + 'fig" and w :: nat and num_std :: real
  defines "s' \<equiv> snd (plot_bollinger_bands parse mpf_plot w num_std s)"
  defines "kept \<equiv> filter (\<lambda>(i, r). \<forall>c \<in> set cols. \<not> coercion_fails parse r c) (rows (data s))"
  shows "if set cols \<subseteq> set (columns (data s))
         then s' = s\<lparr>data := data s'\<rparr> \<and> ui s' = ui s \<and>
              take (length (columns (data s))) (columns (data s')) = columns (data s) \<and>
              set (columns (data s')) = set (columns (data s)) \<union> {''MA'', ''STD'', ''Upper'', ''Lower''} \<and>
              map fst (rows (data s')) = map fst kept \<and>
              (\<forall>c. c \<notin> set cols \<union> {''MA'', ''STD'', ''Upper'', ''Lower''} \<longrightarrow>
                   get_column c (data s') = map (\<lambda>(i, r). cell_at r c) kept)
         else data s' = data s \<and>
              ui s' = ui s @ [StError (SchemaMismatch (columns (data s)))]"
proof (cases "set cols \<subseteq> set (columns (data s))")
  case True
  then have s': "s' = s\<lparr>data := compute_indicators parse w num_std (data s)\<rparr>"
    by (simp add: s'_def plot_bollinger_bands_frame)
  have 1: "map fst (rows (data s')) = map fst kept"
    by (simp add: s' compute_indicators_columns(6) rows_prepared kept_def case_prod_unfold comp_def)
  have 2: "get_column c (data s') = map (\<lambda>(i, r). cell_at r c) kept"
    if "c \<notin> set cols \<union> {''MA'', ''STD'', ''Upper'', ''Lower''}" for c
    using that by (simp add: s' get_column_compute_other get_column_prepared kept_def)
  show ?thesis
    using True 1 2
    by (simp add: s' columns_compute_indicators columns_compute_indicators_prefix)
next
  case False
  then show ?thesis
    by (simp add: s'_def plot_bollinger_bands_mismatch)
qed

theorem engine_changes_only_the_frame_witness:
  "ui (snd (plot_bollinger_bands (\<lambda>t. None) (\<lambda>d. Inr ()) 2 1 \<lparr>data = gap_bars, ui = []\<rparr>)) = [] \<and>
   map fst (rows (data (snd (plot_bollinger_bands (\<lambda>t. None) (\<lambda>d. Inr ()) 2 1
                               \<lparr>data = gap_bars, ui = []\<rparr>)))) = [0, 2] \<and>
   get_column ''Note'' (data (snd (plot_bollinger_bands (\<lambda>t. None) (\<lambda>d. Inr ()) 2 1
                               \<lparr>data = gap_bars, ui = []\<rparr>))) = [Obj ''a'', Obj ''c''] \<and>
   data (snd (plot_bollinger_bands (\<lambda>t. None) (\<lambda>d. Inr ()) 2 1 \<lparr>data = no_volume, ui = []\<rparr>)) = no_volume"
proof -
  let ?s = "\<lparr>data = gap_bars, ui = []\<rparr> :: (nat, unit) session"
  let ?t = "\<lparr>data = no_volume, ui = []\<rparr> :: (nat, unit) session"
  have schema: "set cols \<subseteq> set (columns (data ?s))"
    by (auto simp: gap_bars_def)
  have other: "''Note'' \<notin> set cols \<union> {''MA'', ''STD'', ''Upper'', ''Lower''}"
    by (simp add: cols_def)
  have mismatch: "\<not> set cols \<subseteq> set (columns (data ?t))"
    by (simp add: no_volume_def cols_def)
  note a = engine_changes_only_the_frame [of ?s "\<lambda>t. None" "\<lambda>d. Inr ()" 2 1]
  note b = engine_changes_only_the_frame [of ?t "\<lambda>t. None" "\<lambda>d. Inr ()" 2 1]
  have 1: "ui (snd (plot_bollinger_bands (\<lambda>t. None) (\<lambda>d. Inr ()) 2 1 ?s)) = []"
    using a schema by simp
  have 2: "map fst (rows (data (snd (plot_bollinger_bands (\<lambda>t. None) (\<lambda>d. Inr ()) 2 1 ?s)))) = [0, 2]"
    using a schema by (simp add: gap_bars_kept)
  have "get_column ''Note'' (data (snd (plot_bollinger_bands (\<lambda>t. None) (\<lambda>d. Inr ()) 2 1 ?s))) =
        map (\<lambda>(i, r). cell_at r ''Note'')
          [(0, (bar 10)(''Note'' \<mapsto> Obj ''a'')), (2, (bar 60)(''Note'' \<mapsto> Obj ''c''))]"
    using a schema other by (simp add: gap_bars_kept)
  then have 3: "get_column ''Note'' (data (snd (plot_bollinger_bands (\<lambda>t. None) (\<lambda>d. Inr ()) 2 1 ?s))) =
        [Obj ''a'', Obj ''c'']"
    by (simp add: cell_at_def)
  have 4: "data (snd (plot_bollinger_bands (\<lambda>t. None) (\<lambda>d. Inr ()) 2 1 ?t)) = no_volume"
    using b mismatch by simp
  show ?thesis
    using 1 2 3 4 by simp
qed

section \<open>The summary under the chart\<close>

text \<open>
  C10. After a call that returned a figure (it did not end with \<open>None\<close> or with an
  exception of the chart library), the frame object that the caller passed in
  (not a copy) has the columns MA, STD, Upper and Lower and only the rows that survived
  the coercion; the figure was drawn from it; and the lines that the query writes under
  the chart are the index label and the Close, Upper, MA and Lower cells of the last row
  of that same object.
\<close>

theorem summary_reads_the_frame_passed_in:
  fixes downloaded :: "'d frame" and parse :: "string \<Rightarrow> real option"
    and mpf_plot :: "'d frame \<Rightarrow> py_error + 'fig" and w :: nat and num_std :: real
  defines "s0 \<equiv> \<lparr>data = downloaded,
                   ui = [StWriteCount (length (rows downloaded)), StWriteTail (tail 5 downloaded)]\<rparr>"
  defines "result \<equiv> plot_bollinger_bands parse mpf_plot w num_std s0"
  defines "after \<equiv> data (snd result)"
  assumes nonempty: "\<not> empty_frame downloaded"
      and success: "fst result = Inr (Some fig)"
      and rows: "rows after \<noteq> []"
  shows "mpf_plot after = Inr fig \<and>
         set [''MA'', ''STD'', ''Upper'', ''Lower''] \<subseteq> set (columns after) \<and>
         map fst (rows after) =
           map fst (filter (\<lambda>(i, r). \<forall>c \<in> set cols. \<not> coercion_fails parse r c) (rows downloaded)) \<and>
         query parse mpf_plot w num_std downloaded =
           (None, ui s0 @
              [StPyplot fig,
               StSubheader (fst (last (rows after))),
               StWriteValue ''Close'' (last (get_column ''Close'' after)),
               StWriteValue ''Upper'' (last (get_column ''Upper'' after)),
               StWriteValue ''MA'' (last (get_column ''MA'' after)),
               StWriteValue ''Lower'' (last (get_column ''Lower'' after))])"
proof -
  have schema: "set cols \<subseteq> set (columns (data s0))"
  proof (rule ccontr)
    assume "\<not> set cols \<subseteq> set (columns (data s0))"
    then have "fst result = Inr None"
      by (simp add: result_def plot_bollinger_bands_mismatch)
    with success show False by simp
  qed
  have frame: "snd result = s0\<lparr>data := compute_indicators parse w num_std downloaded\<rparr>"
    using schema by (simp add: result_def plot_bollinger_bands_frame) (simp add: s0_def)
  have after: "after = compute_indicators parse w num_std downloaded"
    by (simp add: after_def frame)
  have "(case mpf_plot after of Inl e \<Rightarrow> Inl e | Inr f \<Rightarrow> Inr (Some f)) = Inr (Some fig)"
    using schema success by (simp add: result_def plot_bollinger_bands_result after) (simp add: s0_def)
  then have 1: "mpf_plot after = Inr fig"
    by (simp split: sum.splits)
  have r: "result = (Inr (Some fig), s0\<lparr>data := compute_indicators parse w num_std downloaded\<rparr>)"
    using success frame by (simp add: prod_eq_iff)
  have 2: "set [''MA'', ''STD'', ''Upper'', ''Lower''] \<subseteq> set (columns after)"
    by (simp add: after columns_compute_indicators)
  have 3: "map fst (rows after) =
           map fst (filter (\<lambda>(i, r). \<forall>c \<in> set cols. \<not> coercion_fails parse r c) (rows downloaded))"
    by (simp add: after compute_indicators_columns(6) rows_prepared case_prod_unfold comp_def)
  obtain x xs where cons: "rows after = x # xs"
    using rows by (cases "rows after") auto
  have summary: "(latest_summary after :: py_error + ('d, 'fig) ui_event list) =
     Inr [StSubheader (fst (last (rows after))),
          StWriteValue ''Close'' (last (get_column ''Close'' after)),
          StWriteValue ''Upper'' (last (get_column ''Upper'' after)),
          StWriteValue ''MA'' (last (get_column ''MA'' after)),
          StWriteValue ''Lower'' (last (get_column ''Lower'' after))]"
    unfolding latest_summary_def last_get_column [OF rows]
    by (simp add: cons case_prod_unfold Let_def del: last.simps)
  have 4: "query parse mpf_plot w num_std downloaded =
           (None, ui s0 @
              [StPyplot fig,
               StSubheader (fst (last (rows after))),
               StWriteValue ''Close'' (last (get_column ''Close'' after)),
               StWriteValue ''Upper'' (last (get_column ''Upper'' after)),
               StWriteValue ''MA'' (last (get_column ''MA'' after)),
               StWriteValue ''Lower'' (last (get_column ''Lower'' after))])"
    using nonempty r [unfolded result_def s0_def] summary [unfolded after]
    by (simp add: query_def Let_def after s0_def)
  from 1 2 3 4 show ?thesis by blast
qed

theorem summary_reads_the_frame_passed_in_witness:
  "\<not> empty_frame three_bars \<and>
   fst (plot_bollinger_bands (\<lambda>t. None) (\<lambda>d. Inr ()) 3 2
          \<lparr>data = three_bars,
             ui = [StWriteCount (length (rows three_bars)), StWriteTail (tail 5 three_bars)]\<rparr>) =
     Inr (Some ()) \<and>
   rows (data (snd (plot_bollinger_bands (\<lambda>t. None) (\<lambda>d. Inr ()) 3 2
          \<lparr>data = three_bars,
             ui = [StWriteCount (length (rows three_bars)), StWriteTail (tail 5 three_bars)]\<rparr>))) \<noteq> [] \<and>
   query (\<lambda>t. None) (\<lambda>d. Inr ()) 3 2 three_bars =
     (None, [StWriteCount 3, StWriteTail (tail 5 three_bars), StPyplot (), StSubheader 2,
             StWriteValue ''Close'' (Num 60),
             StWriteValue ''Upper'' (Num (2917313134325193 / 2 ^ 45)),
             StWriteValue ''MA'' (Num 30),
             StWriteValue ''Lower'' (Num (- 806250808995273 / 2 ^ 45))])"
proof -
  let ?s0 = "\<lparr>data = three_bars,
               ui = [StWriteCount (length (rows three_bars)), StWriteTail (tail 5 three_bars)]\<rparr>
             :: (nat, unit) session"
  let ?out = "compute_indicators (\<lambda>t. None) 3 2 three_bars"
  have ne: "\<not> empty_frame three_bars"
    by (simp add: empty_frame_def three_bars_def cols_def)
  have schema: "set cols \<subseteq> set (columns (data ?s0))"
    by (simp add: three_bars_def)
  have ok: "fst (plot_bollinger_bands (\<lambda>t. None) (\<lambda>d. Inr ()) 3 2 ?s0) = Inr (Some ())"
    using schema by (simp add: plot_bollinger_bands_result)
  have after: "data (snd (plot_bollinger_bands (\<lambda>t. None) (\<lambda>d. Inr ()) 3 2 ?s0)) = ?out"
    using schema by (simp add: plot_bollinger_bands_frame)
  have len: "length (rows ?out) = 3"
    by (rule length_three_bars_out)
  then have rows: "rows (data (snd (plot_bollinger_bands (\<lambda>t. None) (\<lambda>d. Inr ()) 3 2 ?s0))) \<noteq> []"
    unfolding after by auto
  have name: "fst (last (rows ?out)) = 2"
  proof -
    have "rows ?out \<noteq> []"
      using len by auto
    then have "fst (last (rows ?out)) = last (map fst (rows ?out))"
      by (simp add: last_map)
    then show ?thesis
      by (simp add: index_three_bars_out)
  qed
  have vals: "last (get_column ''Close'' ?out) = Num 60"
             "last (get_column ''Upper'' ?out) = Num (2917313134325193 / 2 ^ 45)"
             "last (get_column ''MA'' ?out) = Num 30"
             "last (get_column ''Lower'' ?out) = Num (- 806250808995273 / 2 ^ 45)"
    using len
    by (simp_all add: last_three three_bars_indicators three_bars_bands
          compute_indicators_columns(1) close_three_bars)
  have cnt: "length (rows three_bars) = 3"
    by (simp add: three_bars_def)
  have "query (\<lambda>t. None) (\<lambda>d. Inr ()) 3 2 three_bars =
     (None, [StWriteCount 3, StWriteTail (tail 5 three_bars), StPyplot (), StSubheader 2,
             StWriteValue ''Close'' (Num 60),
             StWriteValue ''Upper'' (Num (2917313134325193 / 2 ^ 45)),
             StWriteValue ''MA'' (Num 30),
             StWriteValue ''Lower'' (Num (- 806250808995273 / 2 ^ 45))])"
    using summary_reads_the_frame_passed_in [OF ne ok rows]
    unfolding after name vals by (simp add: cnt)
  then show ?thesis
    using ne ok rows by blast
qed

end
